theory Spec2Isabelle
  imports Complex_Main
begin

section \<open>The CAIPI interactive loop (src/caipi.py)\<close>

text \<open>
  A shallow embedding of \<^verbatim>\<open>caipi\<close> and of the corrections-only step of
  \<^verbatim>\<open>eval_passive\<close>. The Learner and the Problem are objects of the
  \<^verbatim>\<open>caipi\<close> package, which \<^verbatim>\<open>src/caipi.py\<close> imports and never
  defines: their methods are parameters of the model, arbitrary stateful and fallible
  procedures over one opaque world (the learner, the problem and the random number
  generator together).
\<close>

subsection \<open>Errors and numpy floats\<close>

text \<open>
  Every exception that can leave \<^verbatim>\<open>caipi\<close> is a value. The first five are raised
  by the code of \<^verbatim>\<open>src/caipi.py\<close> itself (the \<^verbatim>\<open>assert\<close>, an index
  outside the data, a float division under \<^verbatim>\<open>np.seterr(all='raise')\<close>, a
  reduction of an empty array, \<^verbatim>\<open>t % 0\<close>, a reduction of \<^verbatim>\<open>None\<close>);
  \<open>Raised\<close> is anything a collaborator raises.
\<close>

datatype error =
    AssertionError
  | IndexError
  | FloatingPointError
  | ValueError
  | ZeroDivisionError
  | TypeError
  | Raised string

text \<open>
  The result of a float division of non-negative numbers: a finite quotient (a rational
  here: no rounding is modelled), \<^verbatim>\<open>inf\<close> or \<^verbatim>\<open>nan\<close>.
\<close>

datatype npfloat = Finite rat | PosInf | NaN

subsection \<open>The class-balance diagnostic (lines 259 to 262)\<close>

text \<open>
  \<^verbatim>\<open>
  per_class = np.array([len(y_known[y_known == label])
                        for label in range(len(problem.class_names))]) \
              / len(y_known)
  balance = np.max(per_class) / np.min(per_class)
  \<close>
\<close>

definition class_counts :: "nat \<Rightarrow> int list \<Rightarrow> nat list" where
  "class_counts n_classes y_known =
     map (\<lambda>label. length (filter (\<lambda>v. v = int label) y_known)) [0..<n_classes]"

definition per_class :: "nat \<Rightarrow> int list \<Rightarrow> rat list" where
  "per_class n_classes y_known =
     map (\<lambda>c. of_nat c / of_nat (length y_known)) (class_counts n_classes y_known)"

text \<open>
  \<open>fp_raise\<close> is numpy's error mode: \<^verbatim>\<open>main\<close> sets
  \<^verbatim>\<open>np.seterr(all='raise')\<close> before it calls anything, so that a division by zero
  raises \<^verbatim>\<open>FloatingPointError\<close>; under numpy's default mode it only warns and
  yields \<^verbatim>\<open>inf\<close> (or \<^verbatim>\<open>nan\<close> for \<^verbatim>\<open>0/0\<close>). With no declared class
  \<^verbatim>\<open>np.max\<close> of the empty array raises \<^verbatim>\<open>ValueError\<close>; with no label every
  entry of \<^verbatim>\<open>per_class\<close> is \<^verbatim>\<open>0/0\<close>.
\<close>

definition balance :: "bool \<Rightarrow> nat \<Rightarrow> int list \<Rightarrow> error + npfloat" where
  "balance fp_raise n_classes y_known =
     (if n_classes = 0 then Inl ValueError
      else if y_known = [] then (if fp_raise then Inl FloatingPointError else Inr NaN)
      else
        let mx = Max (set (per_class n_classes y_known));
            mn = Min (set (per_class n_classes y_known))
        in if mn \<noteq> 0 then Inr (Finite (mx / mn))
           else if fp_raise then Inl FloatingPointError
           else Inr (if mx = 0 then NaN else PosInf))"

subsection \<open>The collaborators\<close>

text \<open>
  A method call takes the world and returns a value or an exception, and the world
  after it. Nothing is assumed of a collaborator but that its call returns.
\<close>

type_synonym ('w, 'a) method_call = "'w \<Rightarrow> (error + 'a) \<times> 'w"

text \<open>
  The \<^verbatim>\<open>t\<close> argument of \<^verbatim>\<open>problem.eval\<close>: the round in \<^verbatim>\<open>caipi\<close>, a
  name in \<^verbatim>\<open>eval_passive\<close>.
\<close>

datatype eval_tag = Round nat | Tag string

text \<open>
  What the code reads of the problem (\<^verbatim>\<open>X\<close>, \<^verbatim>\<open>y\<close>, \<^verbatim>\<open>explainable\<close>,
  \<^verbatim>\<open>class_names\<close>) and the methods it calls on the problem and on the learner, with
  the arguments of each call in the order of the source. \<^verbatim>\<open>X\<close> and \<^verbatim>\<open>y\<close> are
  maps from an index to a row and to a label: an index outside the map is numpy's
  \<^verbatim>\<open>IndexError\<close>. The learner that \<^verbatim>\<open>explain\<close> and \<^verbatim>\<open>eval\<close> receive is part
  of the world; \<^verbatim>\<open>basename\<close>, which \<^verbatim>\<open>eval\<close> uses for the names of the files
  it writes, is left out. \<^verbatim>\<open>predict\<close> stands for \<^verbatim>\<open>learner.predict(x)[0]\<close>.
\<close>

record ('w, 'x, 'e, 'p, 'r) collaborators =
  prob_X :: "int \<rightharpoonup> 'x"
  prob_y :: "int \<rightharpoonup> int"
  explainable :: "int set"
  class_names :: "string list"
  explain :: "int list \<Rightarrow> int \<Rightarrow> int \<Rightarrow> ('w, 'e) method_call"
  query_label :: "int \<Rightarrow> ('w, int) method_call"
  query_corrections ::
    "'x list option \<Rightarrow> int list option \<Rightarrow> int \<Rightarrow> int \<Rightarrow> 'e option \<Rightarrow> 'x set
       \<Rightarrow> ('w, 'x list option \<times> int list option) method_call"
  eval :: "int list \<Rightarrow> int list \<Rightarrow> int list option \<Rightarrow> eval_tag \<Rightarrow> ('w, 'r list) method_call"
  select_model :: "'x list \<Rightarrow> int list \<Rightarrow> ('w, unit) method_call"
  fit :: "'x list \<Rightarrow> int list \<Rightarrow> ('w, unit) method_call"
  predict :: "'x \<Rightarrow> ('w, int) method_call"
  select_query :: "int set \<Rightarrow> ('w, int) method_call"
  get_params :: "('w, 'p) method_call"

text \<open>The calls made so far, each with its arguments: what a run did, in order.\<close>

datatype ('x, 'e) event =
    SelectModel "'x list" "int list"
  | Fit "'x list" "int list"
  | SelectQuery "int set"
  | Predict 'x
  | Explain "int list" int int
  | QueryLabel int
  | QueryCorrections "'x list option" "int list option" int int "'e option" "'x set"
  | GetParams
  | Eval "int list" "int list" "int list option" eval_tag

subsection \<open>State\<close>

text \<open>
  The world and the calls made on it survive an exception, and so do the four lists of
  the caller (\<^verbatim>\<open>known_examples\<close> is appended to in place). The correction
  accumulator and the two traces are the locals of \<^verbatim>\<open>caipi\<close> that live across
  rounds.
\<close>

record ('w, 'x, 'e) machine =
  world :: 'w
  log :: "('x, 'e) event list"

datatype 'r perf_entry = PerfVal 'r | NCorrections nat

record ('w, 'x, 'e, 'p, 'r) state = "('w, 'x, 'e) machine" +
  train_examples :: "int list"
  known_examples :: "int list"
  test_examples :: "int list"
  eval_examples :: "int list"
  X_corr :: "'x list option"
  y_corr :: "int list option"
  perfs :: "'r perf_entry list list"
  params :: "'p list"

text \<open>
  A statement either goes on to the rest of the code (its continuation \<open>k\<close>) or
  raises, which ends the run in the state reached: \<open>call\<close> is a method call,
  \<open>attempt\<close> a computation of the code's own that may raise.
\<close>

definition call ::
  "('x, 'e) event \<Rightarrow> ('w, 'a) method_call
     \<Rightarrow> ('a \<Rightarrow> ('w, 'x, 'e, 'z) machine_scheme \<Rightarrow> ('w, 'x, 'e, 'z) machine_scheme \<times> error option)
     \<Rightarrow> ('w, 'x, 'e, 'z) machine_scheme \<Rightarrow> ('w, 'x, 'e, 'z) machine_scheme \<times> error option" where
  "call ev f k s =
     (case f (world s) of
        (Inl e, w) \<Rightarrow> (s\<lparr>world := w, log := log s @ [ev]\<rparr>, Some e)
      | (Inr a, w) \<Rightarrow> k a (s\<lparr>world := w, log := log s @ [ev]\<rparr>))"

definition attempt :: "error + 'a \<Rightarrow> ('a \<Rightarrow> 's \<Rightarrow> 's \<times> error option) \<Rightarrow> 's \<Rightarrow> 's \<times> error option" where
  "attempt v k s = (case v of Inl e \<Rightarrow> (s, Some e) | Inr a \<Rightarrow> k a s)"

text \<open>\<^verbatim>\<open>problem.X[i]\<close> for one index and \<^verbatim>\<open>problem.X[examples]\<close> for a list.\<close>

definition np_index :: "(int \<rightharpoonup> 'a) \<Rightarrow> int \<Rightarrow> error + 'a" where
  "np_index m i = (case m i of None \<Rightarrow> Inl IndexError | Some v \<Rightarrow> Inr v)"

fun np_take :: "(int \<rightharpoonup> 'a) \<Rightarrow> int list \<Rightarrow> error + 'a list" where
  "np_take m [] = Inr []"
| "np_take m (i # examples) =
     (case m i of
        None \<Rightarrow> Inl IndexError
      | Some v \<Rightarrow> (case np_take m examples of Inl e \<Rightarrow> Inl e | Inr vs \<Rightarrow> Inr (v # vs)))"

text \<open>
  Modelled from the spec: \<^verbatim>\<open>vstack\<close> and \<^verbatim>\<open>hstack\<close> come from the
  \<^verbatim>\<open>caipi\<close> package, which is not in the sources. The spec has them "concatenate
  correction rows/labels (if any) with the feature/label rows of all known examples":
  an absent (\<^verbatim>\<open>None\<close>) accumulator contributes nothing.
\<close>

definition stack :: "'a list option \<Rightarrow> 'a list \<Rightarrow> 'a list" where
  "stack corr rows = (case corr of None \<Rightarrow> rows | Some cs \<Rightarrow> cs @ rows)"

text \<open>\<^verbatim>\<open>len(y_corr) if y_corr is not None else 0\<close>, for either half of the accumulator.\<close>

definition n_rows :: "'a list option \<Rightarrow> nat" where
  "n_rows corr = (case corr of None \<Rightarrow> 0 | Some cs \<Rightarrow> length cs)"

definition call_if ::
  "bool \<Rightarrow> ('x, 'e) event \<Rightarrow> ('w, 'a) method_call
     \<Rightarrow> ('a option \<Rightarrow> ('w, 'x, 'e, 'z) machine_scheme \<Rightarrow> ('w, 'x, 'e, 'z) machine_scheme \<times> error option)
     \<Rightarrow> ('w, 'x, 'e, 'z) machine_scheme \<Rightarrow> ('w, 'x, 'e, 'z) machine_scheme \<times> error option" where
  "call_if b ev f k s = (if b then call ev f (\<lambda>a. k (Some a)) s else k None s)"

text \<open>
  \<open>raise\<close> ends the run with an exception, \<open>finish\<close> without one; \<open>read_state\<close>
  hands the current state to the statements that read it, \<open>modify\<close> is an assignment.
\<close>

definition raise :: "error \<Rightarrow> 's \<Rightarrow> 's \<times> error option" where
  "raise e s = (s, Some e)"

definition finish :: "'s \<Rightarrow> 's \<times> error option" where
  "finish s = (s, None)"

definition read_state :: "('s \<Rightarrow> 's \<Rightarrow> 's \<times> error option) \<Rightarrow> 's \<Rightarrow> 's \<times> error option" where
  "read_state k s = k s s"

definition modify :: "('s \<Rightarrow> 's) \<Rightarrow> ('s \<Rightarrow> 's \<times> error option) \<Rightarrow> 's \<Rightarrow> 's \<times> error option" where
  "modify f k s = k (f s)"

subsection \<open>One round of the loop (lines 238 to 290)\<close>

text \<open>
  \<^verbatim>\<open>
  unknown_examples = set(train_examples) - set(known_examples)
  i = learner.select_query(problem, unknown_examples & problem.explainable)
  assert i in train_examples and i not in known_examples
  x = densify(problem.X[i])
  explain = 0 <= start_expl_at <= t
  pred_y = learner.predict(x)[0]
  pred_expl = problem.explain(learner, known_examples, i, pred_y) \
              if explain else None
  true_y = problem.query_label(i)
  known_examples.append(i)
  if explain:
      X_corr, y_corr = \
          problem.query_corrections(X_corr, y_corr, i, pred_y, pred_expl,
                                    X_test_tuples)
  X_known = vstack([X_corr, problem.X[known_examples]])
  y_known = hstack([y_corr, problem.y[known_examples]])
  per_class = ...
  balance = np.max(per_class) / np.min(per_class)
  learner.fit(X_known, y_known)
  params.append(learner.get_params())
  do_eval = t % eval_iters == 0
  perf = problem.eval(learner, known_examples, test_examples,
                      eval_examples if do_eval else None,
                      t=t, basename=basename)
  n_corrections = len(y_corr) if y_corr is not None else 0
  perf += (n_corrections,)
  perfs.append(perf)
  params_for_print = np.round(learner.get_params(), decimals=1)
  print(...)
  \<close>
  \<^verbatim>\<open>densify\<close> changes the representation of a row only, and rows are opaque here.
  \<^verbatim>\<open>t % eval_iters\<close> raises for \<^verbatim>\<open>eval_iters = 0\<close>, and is \<open>mod\<close> on
  \<open>int\<close> otherwise (both follow the sign of the divisor). The balance is printed and
  used for nothing else, but its computation can raise. Printing is not modelled.
\<close>

definition caipi_round ::
  "('w, 'x, 'e, 'p, 'r) collaborators \<Rightarrow> bool \<Rightarrow> int \<Rightarrow> int \<Rightarrow> 'x set \<Rightarrow> nat
     \<Rightarrow> ('w, 'x, 'e, 'p, 'r) state \<Rightarrow> ('w, 'x, 'e, 'p, 'r) state \<times> error option" where
  "caipi_round c fp_raise start_expl_at eval_iters X_test_tuples t =
     read_state (\<lambda>s.
     let unknown_examples = set (train_examples s) - set (known_examples s) in
     call (SelectQuery (unknown_examples \<inter> explainable c))
          (select_query c (unknown_examples \<inter> explainable c)) (\<lambda>i.
     read_state (\<lambda>s.
     if \<not> (i \<in> set (train_examples s) \<and> i \<notin> set (known_examples s))
     then raise AssertionError else
     attempt (np_index (prob_X c) i) (\<lambda>x.
     let explain_now = (0 \<le> start_expl_at \<and> start_expl_at \<le> int t) in
     call (Predict x) (predict c x) (\<lambda>pred_y.
     read_state (\<lambda>s.
     call_if explain_now (Explain (known_examples s) i pred_y)
          (explain c (known_examples s) i pred_y) (\<lambda>pred_expl.
     call (QueryLabel i) (query_label c i) (\<lambda>true_y.
     modify (\<lambda>s. s\<lparr>known_examples := known_examples s @ [i]\<rparr>) (
     read_state (\<lambda>s.
     call_if explain_now
          (QueryCorrections (X_corr s) (y_corr s) i pred_y pred_expl X_test_tuples)
          (query_corrections c (X_corr s) (y_corr s) i pred_y pred_expl X_test_tuples) (\<lambda>corr.
     modify (\<lambda>s. case corr of None \<Rightarrow> s | Some (Xc, yc) \<Rightarrow> s\<lparr>X_corr := Xc, y_corr := yc\<rparr>) (
     read_state (\<lambda>s.
     attempt (np_take (prob_X c) (known_examples s)) (\<lambda>X_rows.
     attempt (np_take (prob_y c) (known_examples s)) (\<lambda>y_rows.
     let X_known = stack (X_corr s) X_rows;
         y_known = stack (y_corr s) y_rows in
     attempt (balance fp_raise (length (class_names c)) y_known) (\<lambda>balance_value.
     call (Fit X_known y_known) (fit c X_known y_known) (\<lambda>_.
     call GetParams (get_params c) (\<lambda>p.
     modify (\<lambda>s. s\<lparr>params := params s @ [p]\<rparr>) (
     if eval_iters = 0 then raise ZeroDivisionError else
     let do_eval = (int t mod eval_iters = 0) in
     read_state (\<lambda>s.
     call (Eval (known_examples s) (test_examples s)
                (if do_eval then Some (eval_examples s) else None) (Round t))
          (eval c (known_examples s) (test_examples s)
                (if do_eval then Some (eval_examples s) else None) (Round t)) (\<lambda>perf.
     read_state (\<lambda>s.
     let n_corrections = n_rows (y_corr s) in
     modify (\<lambda>s. s\<lparr>perfs := perfs s @ [map PerfVal perf @ [NCorrections n_corrections]]\<rparr>) (
     call GetParams (get_params c) (\<lambda>params_for_print.
     finish))))))))))))))))))))))))"

subsection \<open>The loop and the function (lines 201 to 292)\<close>

text \<open>
  \<^verbatim>\<open>
  for t in range(max_iters):
      if len(known_examples) >= len(train_examples):
          break
      ...
  return perfs, params
  \<close>
\<close>

fun caipi_loop ::
  "('w, 'x, 'e, 'p, 'r) collaborators \<Rightarrow> bool \<Rightarrow> int \<Rightarrow> int \<Rightarrow> 'x set \<Rightarrow> nat list
     \<Rightarrow> ('w, 'x, 'e, 'p, 'r) state \<Rightarrow> ('w, 'x, 'e, 'p, 'r) state \<times> error option" where
  "caipi_loop c fp_raise start_expl_at eval_iters X_test_tuples [] s = (s, None)"
| "caipi_loop c fp_raise start_expl_at eval_iters X_test_tuples (t # ts) s =
     (if length (known_examples s) \<ge> length (train_examples s) then (s, None)
      else case caipi_round c fp_raise start_expl_at eval_iters X_test_tuples t s of
             (s', Some e) \<Rightarrow> (s', Some e)
           | (s', None) \<Rightarrow> caipi_loop c fp_raise start_expl_at eval_iters X_test_tuples ts s')"

text \<open>
  \<^verbatim>\<open>
  X_test_tuples = {tuple(densify(problem.X[i]).ravel()) for i in test_examples}
  learner.select_model(problem.X[known_examples], problem.y[known_examples])
  learner.fit(problem.X[known_examples], problem.y[known_examples])
  perfs, params = [], []
  X_corr, y_corr = None, None
  \<close>
  The caller passes the four lists and the world; \<^verbatim>\<open>range(max_iters)\<close> is empty for
  \<^verbatim>\<open>max_iters \<le> 0\<close>. The run ends in a state and, when it raised, an exception;
  otherwise it returns the two traces.
\<close>

definition init_state ::
  "'w \<Rightarrow> int list \<Rightarrow> int list \<Rightarrow> int list \<Rightarrow> int list \<Rightarrow> ('w, 'x, 'e, 'p, 'r) state" where
  "init_state w train known test eval_ex =
     \<lparr>world = w, log = [],
      train_examples = train, known_examples = known,
      test_examples = test, eval_examples = eval_ex,
      X_corr = None, y_corr = None, perfs = [], params = []\<rparr>"

definition caipi ::
  "('w, 'x, 'e, 'p, 'r) collaborators \<Rightarrow> bool \<Rightarrow> int list \<Rightarrow> int list \<Rightarrow> int list \<Rightarrow> int list
     \<Rightarrow> int \<Rightarrow> int \<Rightarrow> int \<Rightarrow> 'w \<Rightarrow> ('w, 'x, 'e, 'p, 'r) state \<times> error option" where
  "caipi c fp_raise train known test eval_ex max_iters start_expl_at eval_iters w =
     (attempt (np_take (prob_X c) test) (\<lambda>test_rows.
      let X_test_tuples = set test_rows in
      attempt (np_take (prob_X c) known) (\<lambda>X_rows.
      attempt (np_take (prob_y c) known) (\<lambda>y_rows.
      call (SelectModel X_rows y_rows) (select_model c X_rows y_rows) (\<lambda>_.
      call (Fit X_rows y_rows) (fit c X_rows y_rows) (\<lambda>_.
      caipi_loop c fp_raise start_expl_at eval_iters X_test_tuples [0..<nat max_iters]))))))
       (init_state w train known test eval_ex)"

definition caipi_result ::
  "('w, 'x, 'e, 'p, 'r) state \<times> error option \<Rightarrow> error + ('r perf_entry list list \<times> 'p list)" where
  "caipi_result r = (case snd r of Some e \<Rightarrow> Inl e | None \<Rightarrow> Inr (perfs (fst r), params (fst r)))"

subsection \<open>A small problem and learner to run the model on\<close>

text \<open>
  Four examples with rows \<open>0, 10, 20, 30\<close> and labels \<open>0, 1, 0, 1\<close>, of which the
  first three are explainable, and two classes. The learner selects the least candidate
  and raises on an empty pool (as \<^verbatim>\<open>rng.choice\<close> and \<^verbatim>\<open>np.argmin\<close> do on
  an empty sequence); its parameters are the number of fits so far. Every correction
  adds one row.
\<close>

definition demo :: "(nat, int, int, nat, nat) collaborators" where
  "demo =
     \<lparr>prob_X = (\<lambda>i. if 0 \<le> i \<and> i < 4 then Some (10 * i) else None),
      prob_y = (\<lambda>i. if 0 \<le> i \<and> i < 4 then Some (i mod 2) else None),
      explainable = {0, 1, 2},
      class_names = [''neg'', ''pos''],
      explain = (\<lambda>known i pred_y w. (Inr i, w)),
      query_label = (\<lambda>i w. (Inr (i mod 2), w)),
      query_corrections = (\<lambda>Xc yc i pred_y pred_expl excluded w.
         (Inr (Some (stack Xc [10 * i + 1]), Some (stack yc [i mod 2])), w)),
      eval = (\<lambda>known test eval_ex t w. (Inr [length known], w)),
      select_model = (\<lambda>X y w. (Inr (), w)),
      fit = (\<lambda>X y w. (Inr (), Suc w)),
      predict = (\<lambda>x w. (Inr 0, w)),
      select_query = (\<lambda>pool w.
         if pool = {} then (Inl (Raised ''ValueError''), w) else (Inr (Min pool), w)),
      get_params = (\<lambda>w. (Inr w, w))\<rparr>"

text \<open>The same with a learner that selects example 0 whatever the candidates are.\<close>

definition stubborn :: "(nat, int, int, nat, nat) collaborators" where
  "stubborn = demo\<lparr>select_query := (\<lambda>pool w. (Inr 0, w))\<rparr>"

subsection \<open>Reading the calls of a run\<close>

text \<open>
  A round starts with exactly one call of \<^verbatim>\<open>select_query\<close>, so the rounds a run
  has started are its \<open>SelectQuery\<close> events; the indices it has queried a label for
  are its \<open>QueryLabel\<close> events, in order.
\<close>

fun is_select_query :: "('x, 'e) event \<Rightarrow> bool" where
  "is_select_query (SelectQuery pool) = True"
| "is_select_query ev = False"

fun is_correction_call :: "('x, 'e) event \<Rightarrow> bool" where
  "is_correction_call (Explain known i pred_y) = True"
| "is_correction_call (QueryCorrections Xc yc i pred_y pred_expl excluded) = True"
| "is_correction_call ev = False"

fun is_eval :: "('x, 'e) event \<Rightarrow> bool" where
  "is_eval (Eval known test eval_ex t) = True"
| "is_eval ev = False"

fun queried_indices :: "('x, 'e) event list \<Rightarrow> int list" where
  "queried_indices [] = []"
| "queried_indices (QueryLabel i # evs) = i # queried_indices evs"
| "queried_indices (ev # evs) = queried_indices evs"

definition rounds :: "('w, 'x, 'e, 'z) machine_scheme \<Rightarrow> nat" where
  "rounds s = length (filter is_select_query (log s))"

text \<open>The calls made between a state and a later one.\<close>

definition new_events ::
  "('w, 'x, 'e, 'z) machine_scheme \<Rightarrow> ('w, 'x, 'e, 'z) machine_scheme \<Rightarrow> ('x, 'e) event list" where
  "new_events s s' = drop (length (log s)) (log s')"

section \<open>The passive evaluation, after the corrections (lines 152 to 187)\<close>

text \<open>
  \<^verbatim>\<open>eval_passive\<close> from the point where the corrections have been collected. Its
  locals are the corrections-only snapshot \<^verbatim>\<open>corr_params\<close>, the last performance
  \<^verbatim>\<open>perf\<close> and what is handed to \<^verbatim>\<open>dump\<close> at the end.
\<close>

record 'p passive_models =
  w_train :: 'p
  w_corr :: "'p option"
  w_both :: 'p

record ('w, 'x, 'e, 'p, 'r) passive_state = "('w, 'x, 'e) machine" +
  corr_params :: "'p option"
  perf :: "'r list"
  dumped :: "'p passive_models option"

text \<open>\<^verbatim>\<open>np.min(y_corr)\<close> and \<^verbatim>\<open>np.max(y_corr)\<close>: an empty array has neither.\<close>

definition np_min_max :: "int list \<Rightarrow> error + (int \<times> int)" where
  "np_min_max ys = (if ys = [] then Inl ValueError else Inr (Min (set ys), Max (set ys)))"

text \<open>
  \<^verbatim>\<open>
  corr_params = None
  if np.min(y_corr) != np.max(y_corr):
      learner.fit(X_corr, y_corr)
      corr_params = learner.get_params()
      perf = problem.eval(learner, train_examples,
                          test_examples, eval_examples,
                          t='corr', basename=basename)
  \<close>
  followed by the rest of the function, \<open>k\<close>.
\<close>

definition eval_passive_corr ::
  "('w, 'x, 'e, 'p, 'r) collaborators \<Rightarrow> int list \<Rightarrow> int list \<Rightarrow> int list \<Rightarrow> 'x list \<Rightarrow> int list
     \<Rightarrow> (('w, 'x, 'e, 'p, 'r) passive_state \<Rightarrow> ('w, 'x, 'e, 'p, 'r) passive_state \<times> error option)
     \<Rightarrow> ('w, 'x, 'e, 'p, 'r) passive_state \<Rightarrow> ('w, 'x, 'e, 'p, 'r) passive_state \<times> error option" where
  "eval_passive_corr c train test eval_ex Xc yc k =
     modify (\<lambda>s. s\<lparr>corr_params := None\<rparr>) (
     attempt (np_min_max yc) (\<lambda>(mn, mx).
     if mn \<noteq> mx then
       call (Fit Xc yc) (fit c Xc yc) (\<lambda>_.
       call GetParams (get_params c) (\<lambda>p.
       modify (\<lambda>s. s\<lparr>corr_params := Some p\<rparr>) (
       call (Eval train test (Some eval_ex) (Tag ''corr''))
            (eval c train test (Some eval_ex) (Tag ''corr'')) (\<lambda>new_perf.
       modify (\<lambda>s. s\<lparr>perf := new_perf\<rparr>) k))))
     else k))"

text \<open>
  \<^verbatim>\<open>
  if X_corr is None:
      return
  ...
  X_train_corr = vstack([problem.X[train_examples], X_corr])
  y_train_corr = hstack([problem.y[train_examples], y_corr])
  learner.fit(X_train_corr, y_train_corr)
  train_corr_params = learner.get_params()
  perf = problem.eval(learner, train_examples, test_examples, eval_examples,
                      t='train+corr', basename=basename)
  dump(basename + '_passive_models.pickle',
       {'w_train': train_params, 'w_corr': corr_params, 'w_both': train_corr_params})
  \<close>
  The accumulator is absent (both halves \<^verbatim>\<open>None\<close>, as at the start) or a pair of
  rows and labels.
\<close>

definition eval_passive_tail ::
  "('w, 'x, 'e, 'p, 'r) collaborators \<Rightarrow> int list \<Rightarrow> int list \<Rightarrow> int list \<Rightarrow> 'p
     \<Rightarrow> ('x list \<times> int list) option
     \<Rightarrow> ('w, 'x, 'e, 'p, 'r) passive_state \<Rightarrow> ('w, 'x, 'e, 'p, 'r) passive_state \<times> error option" where
  "eval_passive_tail c train test eval_ex train_params corr =
     (case corr of
        None \<Rightarrow> finish
      | Some (Xc, yc) \<Rightarrow>
          eval_passive_corr c train test eval_ex Xc yc (
          attempt (np_take (prob_X c) train) (\<lambda>X_train.
          attempt (np_take (prob_y c) train) (\<lambda>y_train.
          let X_train_corr = X_train @ Xc;
              y_train_corr = y_train @ yc in
          call (Fit X_train_corr y_train_corr) (fit c X_train_corr y_train_corr) (\<lambda>_.
          call GetParams (get_params c) (\<lambda>train_corr_params.
          call (Eval train test (Some eval_ex) (Tag ''train+corr''))
               (eval c train test (Some eval_ex) (Tag ''train+corr'')) (\<lambda>new_perf.
          modify (\<lambda>s. s\<lparr>perf := new_perf\<rparr>) (
          read_state (\<lambda>s.
          modify (\<lambda>s'. s'\<lparr>dumped := Some \<lparr>w_train = train_params, w_corr = corr_params s,
                                            w_both = train_corr_params\<rparr>\<rparr>)
          finish)))))))))"

section \<open>Properties\<close>

subsection \<open>The balance ratio\<close>


lemma per_class_nonempty: "0 < n_classes \<Longrightarrow> per_class n_classes y_known \<noteq> []"
  by (simp add: per_class_def class_counts_def)

lemma per_class_pos:
  assumes "\<forall>label < n_classes. int label \<in> set y_known"
    and "p \<in> set (per_class n_classes y_known)"
  shows "0 < p"
proof -
  from assms(2) obtain label where l: "label < n_classes"
    and p: "p = of_nat (length (filter (\<lambda>v. v = int label) y_known)) / of_nat (length y_known)"
    by (auto simp: per_class_def class_counts_def)
  from assms(1) l have mem: "int label \<in> set y_known" by simp
  then have "filter (\<lambda>v. v = int label) y_known \<noteq> []"
    by (auto simp: filter_empty_conv)
  then have "0 < length (filter (\<lambda>v. v = int label) y_known)" by simp
  moreover from mem have "0 < length y_known" by (cases y_known) auto
  ultimately show ?thesis using p by simp
qed

lemma per_class_zero:
  assumes "label < n_classes" "int label \<notin> set y_known"
  shows "0 \<in> set (per_class n_classes y_known)"
proof -
  from assms(2) have "filter (\<lambda>v. v = int label) y_known = []"
    by (auto simp: filter_empty_conv)
  then have "of_nat (length (filter (\<lambda>v. v = int label) y_known)) / of_nat (length y_known) = (0::rat)"
    by simp
  with assms(1) show ?thesis
    unfolding per_class_def class_counts_def set_map set_upt
    by (metis (no_types, lifting) atLeastLessThan_iff image_eqI le0 image_image)
qed

lemma per_class_nonneg: "p \<in> set (per_class n_classes y_known) \<Longrightarrow> 0 \<le> p"
  by (auto simp: per_class_def class_counts_def)

lemma balance_class_absent:
  assumes "label < n_classes" "int label \<notin> set y_known" "y_known \<noteq> []"
  shows "balance True n_classes y_known = Inl FloatingPointError"
    and "balance False n_classes y_known = Inr PosInf \<or> balance False n_classes y_known = Inr NaN"
proof -
  let ?P = "set (per_class n_classes y_known)"
  have z: "0 \<in> ?P" using assms(1,2) by (rule per_class_zero)
  have "Min ?P \<le> 0" using z by (simp add: Min_le)
  moreover have "Min ?P \<in> ?P" using z by (intro Min_in) auto
  then have "0 \<le> Min ?P" by (rule per_class_nonneg)
  ultimately have mn: "Min ?P = 0" by simp
  from assms(1) have n: "n_classes \<noteq> 0" by simp
  show "balance True n_classes y_known = Inl FloatingPointError"
    using n assms(3) mn by (simp add: balance_def Let_def)
  show "balance False n_classes y_known = Inr PosInf \<or> balance False n_classes y_known = Inr NaN"
    using n assms(3) mn by (simp add: balance_def Let_def)
qed

text \<open>
  Claim C1, as the code has it. The balance ratio is the largest per-class proportion of
  the assembled labels divided by the smallest, over the declared classes. Nothing is
  clamped: the ratio is well-defined (no division by zero) and at least 1 when every
  declared class has a positive count. When a declared class has no label the
  division is by zero (lemma \<open>balance_class_absent\<close>).
\<close>

theorem balance_all_classes_present:
  assumes "0 < n_classes" and "\<forall>label < n_classes. int label \<in> set y_known"
  shows "\<exists>r. balance fp_raise n_classes y_known = Inr (Finite r)
           \<and> r = Max (set (per_class n_classes y_known)) / Min (set (per_class n_classes y_known))
           \<and> 0 < Min (set (per_class n_classes y_known))
           \<and> 1 \<le> r"
proof -
  let ?P = "set (per_class n_classes y_known)"
  have fin: "finite ?P" by simp
  have ne: "?P \<noteq> {}" using per_class_nonempty [OF assms(1)] by simp
  from assms have yne: "y_known \<noteq> []" by auto
  have "Min ?P \<in> ?P" using fin ne by (rule Min_in)
  then have mn: "0 < Min ?P" using per_class_pos [OF assms(2)] by blast
  have le: "Min ?P \<le> Max ?P" using fin \<open>Min ?P \<in> ?P\<close> by (rule Max_ge)
  from mn le have "1 \<le> Max ?P / Min ?P" by (simp add: le_divide_eq_1)
  moreover from assms(1) yne mn
  have "balance fp_raise n_classes y_known = Inr (Finite (Max ?P / Min ?P))"
    by (simp add: balance_def Let_def)
  ultimately show ?thesis using mn by blast
qed

theorem balance_all_classes_present_witness:
  "\<exists>r. balance True 2 [0, 1, 1] = Inr (Finite r) \<and> 1 \<le> r"
proof -
  have h1: "0 < (2::nat)" by simp
  have h2: "\<forall>label < 2. int label \<in> set [0, 1, 1]"
    by (simp add: less_Suc_eq numeral_2_eq_2)
  from balance_all_classes_present [OF h1 h2, of True] show ?thesis by blast
qed

text \<open>
  Claim C1 as stated fails: with two declared classes and labels \<open>[0, 0]\<close> the
  second class has count zero, nothing clamps it, and the division is by zero: a
  \<^verbatim>\<open>FloatingPointError\<close> under \<^verbatim>\<open>np.seterr(all='raise')\<close>, and
  \<^verbatim>\<open>inf\<close> otherwise.
\<close>

theorem balance_zero_count_counterexample:
  "balance True 2 [0, 0] = Inl FloatingPointError \<and> balance False 2 [0, 0] = Inr PosInf"
  by (simp add: balance_def per_class_def class_counts_def upt_rec)



subsection \<open>Rounds and the loop\<close>

text \<open>
  Facts about one round are proved by running the round symbolically: unfolding the
  statements and splitting on the result of every call.
\<close>


lemmas stmt_defs = call_def call_if_def attempt_def raise_def finish_def read_state_def modify_def
lemmas round_splits = prod.splits sum.splits option.splits if_splits

lemma queried_indices_append:
  "queried_indices (evs @ evs') = queried_indices evs @ queried_indices evs'"
  by (induction evs rule: queried_indices.induct) simp_all

lemma np_take_length: "np_take m examples = Inr vs \<Longrightarrow> length vs = length examples"
  by (induction examples arbitrary: vs) (auto split: option.splits sum.splits)

lemma np_take_append:
  "np_take m (xs @ ys) = Inr vs \<Longrightarrow> \<exists>v1 v2. np_take m xs = Inr v1 \<and> np_take m ys = Inr v2 \<and> vs = v1 @ v2"
  by (induction xs arbitrary: vs) (auto split: option.splits sum.splits)

lemma round_frame:
  assumes "caipi_round c fp st ei Xtt t s = (s', out)"
  shows "train_examples s' = train_examples s \<and> test_examples s' = test_examples s
       \<and> eval_examples s' = eval_examples s"
  using assms
  by (auto simp: caipi_round_def stmt_defs Let_def split: round_splits)

lemma round_known:
  assumes "caipi_round c fp st ei Xtt t s = (s', out)"
  shows "(out \<noteq> None \<and> known_examples s' = known_examples s) \<or>
         (\<exists>i. known_examples s' = known_examples s @ [i] \<and> i \<in> set (train_examples s) \<and> i \<notin> set (known_examples s))"
  using assms
  by (auto simp: caipi_round_def stmt_defs Let_def split: round_splits)

lemma round_select:
  assumes "caipi_round c fp st ei Xtt t s = (s', out)"
  shows "\<exists>new. log s' = log s @ SelectQuery ((set (train_examples s) - set (known_examples s)) \<inter> explainable c) # new
           \<and> (\<forall>ev \<in> set new. \<not> is_select_query ev)"
  using assms
  by (auto simp: caipi_round_def stmt_defs Let_def split: round_splits)

lemma round_rounds:
  assumes "caipi_round c fp st ei Xtt t s = (s', out)"
  shows "rounds s' = Suc (rounds s)"
proof -
  from round_select [OF assms] obtain new where
    "log s' = log s @ SelectQuery ((set (train_examples s) - set (known_examples s)) \<inter> explainable c) # new"
    and "\<forall>ev \<in> set new. \<not> is_select_query ev" by blast
  then show ?thesis by (simp add: rounds_def filter_empty_conv [THEN iffD2])
qed

lemma round_queried:
  assumes "caipi_round c fp st ei Xtt t s = (s', out)"
  shows "(known_examples s' = known_examples s \<and> out \<noteq> None \<and>
            (queried_indices (log s') = queried_indices (log s)
             \<or> (\<exists>i. queried_indices (log s') = queried_indices (log s) @ [i])))
       \<or> (\<exists>i. known_examples s' = known_examples s @ [i]
               \<and> queried_indices (log s') = queried_indices (log s) @ [i])"
  using assms
  by (auto simp: caipi_round_def stmt_defs Let_def queried_indices_append split: round_splits)

lemma round_traces:
  assumes "caipi_round c fp st ei Xtt t s = (s', out)"
  shows "(perfs s' = perfs s \<and> out \<noteq> None \<or> (\<exists>r. perfs s' = perfs s @ [r]))
       \<and> (params s' = params s \<and> out \<noteq> None \<or> (\<exists>p. params s' = params s @ [p]))"
  using assms
  by (auto simp: caipi_round_def stmt_defs Let_def split: round_splits)

text \<open>
  The loop, as an induction rule: a relation between the list of rounds still to run,
  the state before, the state after and the outcome holds of every run of the loop when
  it holds where the loop stops, where a round raises, and is carried over a round that
  completes.
\<close>

lemma caipi_loop_induct [consumes 1, case_names exhausted covered error step]:
  assumes run: "caipi_loop c fp st ei Xtt ts s = (s', out)"
    and exhausted: "\<And>s. R [] s s None"
    and covered: "\<And>t ts s. length (train_examples s) \<le> length (known_examples s) \<Longrightarrow> R (t # ts) s s None"
    and err: "\<And>t ts s s1 e. length (known_examples s) < length (train_examples s) \<Longrightarrow>
                caipi_round c fp st ei Xtt t s = (s1, Some e) \<Longrightarrow> R (t # ts) s s1 (Some e)"
    and step: "\<And>t ts s s1 s2 out. length (known_examples s) < length (train_examples s) \<Longrightarrow>
                caipi_round c fp st ei Xtt t s = (s1, None) \<Longrightarrow> R ts s1 s2 out \<Longrightarrow> R (t # ts) s s2 out"
  shows "R ts s s' out"
  using run
proof (induction ts arbitrary: s)
  case Nil
  then show ?case using exhausted by simp
next
  case (Cons t ts)
  show ?case
  proof (cases "length (train_examples s) \<le> length (known_examples s)")
    case True
    with Cons.prems show ?thesis using covered by simp
  next
    case False
    then have lt: "length (known_examples s) < length (train_examples s)" by simp
    obtain s1 o1 where r: "caipi_round c fp st ei Xtt t s = (s1, o1)" by force
    show ?thesis
    proof (cases o1)
      case None
      with Cons.prems False r have "caipi_loop c fp st ei Xtt ts s1 = (s', out)" by simp
      then have "R ts s1 s' out" by (rule Cons.IH)
      with lt r None show ?thesis using step by blast
    next
      case (Some e)
      with Cons.prems False r have "s' = s1" "out = Some e" by simp_all
      with lt r Some show ?thesis using err by blast
    qed
  qed
qed

lemma caipi_loop_rounds:
  assumes "caipi_loop c fp st ei Xtt ts s = (s', out)"
  shows "rounds s' \<le> rounds s + length ts
       \<and> rounds s' \<le> rounds s + (length (train_examples s) - length (known_examples s))
       \<and> (out = None \<longrightarrow> rounds s' = rounds s + min (length ts) (length (train_examples s) - length (known_examples s)))"
  using assms
proof (induction rule: caipi_loop_induct)
  case (exhausted s)
  then show ?case by simp
next
  case (covered t ts s)
  then show ?case by simp
next
  case (error t ts s s1 e)
  then show ?case using round_rounds [OF error(2)] by simp
next
  case (step t ts s s1 s2 out)
  from round_rounds [OF step(2)] have r: "rounds s1 = Suc (rounds s)" .
  from round_frame [OF step(2)] have f: "train_examples s1 = train_examples s" by simp
  from round_known [OF step(2)] have k: "length (known_examples s1) = Suc (length (known_examples s))"
    by auto
  from step(1,3) r f k show ?case by auto
qed

text \<open>
  The start of \<^verbatim>\<open>caipi\<close>: either it raises before the loop, in the initial state
  but for the world and at most the two calls made, or the loop runs from the state
  after the first fit.
\<close>

lemma caipi_cases [consumes 1, case_names init_failed looped]:
  assumes run: "caipi c fp train known test eval_ex max_iters st ei w = (s', out)"
  obtains (init_failed) w1 l where "out \<noteq> None"
      and "s' = (init_state w train known test eval_ex)\<lparr>world := w1, log := l\<rparr>"
      and "l = [] \<or> (\<exists>X_rows y_rows. np_take (prob_X c) known = Inr X_rows
              \<and> np_take (prob_y c) known = Inr y_rows
              \<and> (l = [SelectModel X_rows y_rows] \<or> l = [SelectModel X_rows y_rows, Fit X_rows y_rows]))"
  | (looped) w1 test_rows X_rows y_rows where "np_take (prob_X c) test = Inr test_rows"
      and "np_take (prob_X c) known = Inr X_rows" and "np_take (prob_y c) known = Inr y_rows"
      and "caipi_loop c fp st ei (set test_rows) [0..<nat max_iters]
             ((init_state w train known test eval_ex)
                \<lparr>world := w1, log := [SelectModel X_rows y_rows, Fit X_rows y_rows]\<rparr>) = (s', out)"
  using run
  by (auto simp: caipi_def stmt_defs Let_def init_state_def split: round_splits)

subsection \<open>Termination\<close>

text \<open>
  Claim C4. \<^verbatim>\<open>caipi\<close> always ends, after at most \<^verbatim>\<open>max_iters\<close> rounds and
  at most as many rounds as \<^verbatim>\<open>train_examples\<close> is longer than
  \<^verbatim>\<open>known_examples\<close>; when it returns, it has run exactly the smaller of the two
  numbers. With \<^verbatim>\<open>max_iters = 0\<close> (or less), or with \<^verbatim>\<open>known_examples\<close>
  already as long as \<^verbatim>\<open>train_examples\<close>, it runs no round, queries nothing, and
  both traces are empty: it returns \<open>([], [])\<close> unless the first fit raised.
\<close>

theorem caipi_terminates:
  fixes c :: "('w, 'x, 'e, 'p, 'r) collaborators"
  shows "\<exists>s' out. caipi c fp train known test eval_ex max_iters st ei w = (s', out)
     \<and> rounds s' \<le> nat max_iters
     \<and> rounds s' \<le> length train - length known
     \<and> (out = None \<longrightarrow> rounds s' = min (nat max_iters) (length train - length known))
     \<and> (max_iters \<le> 0 \<or> length train \<le> length known \<longrightarrow>
          rounds s' = 0 \<and> known_examples s' = known \<and> perfs s' = [] \<and> params s' = []
          \<and> (out = None \<longrightarrow> caipi_result (s', out) = Inr ([], [])))"
proof -
  obtain s' out where run: "caipi c fp train known test eval_ex max_iters st ei w = (s', out)"
    by force
  from run have "rounds s' \<le> nat max_iters
     \<and> rounds s' \<le> length train - length known
     \<and> (out = None \<longrightarrow> rounds s' = min (nat max_iters) (length train - length known))
     \<and> (max_iters \<le> 0 \<or> length train \<le> length known \<longrightarrow>
          rounds s' = 0 \<and> known_examples s' = known \<and> perfs s' = [] \<and> params s' = []
          \<and> (out = None \<longrightarrow> caipi_result (s', out) = Inr ([], [])))"
  proof (cases rule: caipi_cases)
    case (init_failed w1 l)
    then show ?thesis by (auto simp: rounds_def init_state_def caipi_result_def)
  next
    case (looped w1 test_rows X_rows y_rows)
    define s0 :: "('w, 'x, 'e, 'p, 'r) state" where "s0 = (init_state w train known test eval_ex)
                \<lparr>world := w1, log := [SelectModel X_rows y_rows, Fit X_rows y_rows]\<rparr>"
    have s: "rounds s0 = 0" "train_examples s0 = train" "known_examples s0 = known"
      "perfs s0 = []" "params s0 = []"
      by (simp_all add: s0_def rounds_def init_state_def)
    from looped(4) have loop: "caipi_loop c fp st ei (set test_rows) [0..<nat max_iters] s0 = (s', out)"
      by (simp add: s0_def)
    from caipi_loop_rounds [OF loop] s
    have bound: "rounds s' \<le> nat max_iters" "rounds s' \<le> length train - length known"
      "out = None \<longrightarrow> rounds s' = min (nat max_iters) (length train - length known)"
      by simp_all
    have zero: "s' = s0 \<and> out = None" if "max_iters \<le> 0 \<or> length train \<le> length known"
    proof (cases "[0..<nat max_iters]")
      case Nil
      with loop show ?thesis by simp
    next
      case (Cons t ts)
      with that have "length train \<le> length known" by auto
      with loop Cons s show ?thesis by simp
    qed
    from bound zero s show ?thesis by (auto simp: caipi_result_def)
  qed
  with run show ?thesis by blast
qed

text \<open>The definitions to unfold when a run is evaluated on the small problem.\<close>

lemmas run_simps = caipi_def caipi_round_def call_def call_if_def attempt_def raise_def finish_def
  read_state_def modify_def init_state_def demo_def np_index_def stack_def n_rows_def
  balance_def per_class_def class_counts_def Let_def upt_rec

theorem caipi_terminates_witness:
  "rounds (fst (caipi demo True [0, 1, 2] [0, 1] [3] [3] 5 (- 1) 2 0)) = 1
   \<and> perfs (fst (caipi demo True [0, 1, 2] [0, 1] [3] [3] 0 (- 1) 2 0)) = []"
proof -
  have out: "snd (caipi demo True [0, 1, 2] [0, 1] [3] [3] 5 (- 1) 2 0) = None"
    by (simp add: run_simps)
  from caipi_terminates [of demo True "[0, 1, 2]" "[0, 1]" "[3]" "[3]" 5 "- 1" 2 0] out
  have "rounds (fst (caipi demo True [0, 1, 2] [0, 1] [3] [3] 5 (- 1) 2 0)) = 1"
    by auto
  moreover
  from caipi_terminates [of demo True "[0, 1, 2]" "[0, 1]" "[3]" "[3]" 0 "- 1" 2 0]
  have "perfs (fst (caipi demo True [0, 1, 2] [0, 1] [3] [3] 0 (- 1) 2 0)) = []"
    by auto
  ultimately show ?thesis by simp
qed

subsection \<open>The known examples\<close>

lemma caipi_loop_known:
  assumes "caipi_loop c fp st ei Xtt ts s = (s', out)"
  shows "train_examples s' = train_examples s \<and> test_examples s' = test_examples s
       \<and> eval_examples s' = eval_examples s
       \<and> (\<exists>queried. known_examples s' = known_examples s @ queried
             \<and> (distinct (known_examples s) \<longrightarrow> distinct (known_examples s'))
             \<and> set queried \<subseteq> set (train_examples s)
             \<and> (rounds s' = rounds s + length queried
                  \<or> out \<noteq> None \<and> rounds s' = Suc (rounds s + length queried))
             \<and> (queried_indices (log s') = queried_indices (log s) @ queried
                  \<or> out \<noteq> None \<and> (\<exists>i. queried_indices (log s') = queried_indices (log s) @ queried @ [i])))"
  using assms
proof (induction rule: caipi_loop_induct)
  case (exhausted s)
  then show ?case by simp
next
  case (covered t ts s)
  then show ?case by simp
next
  case (error t ts s s1 e)
  from round_frame [OF error(2)] round_rounds [OF error(2)] round_known [OF error(2)]
    round_queried [OF error(2)]
  show ?case by auto
next
  case (step t ts s s1 s2 out)
  from round_known [OF step(2)] obtain i where i: "known_examples s1 = known_examples s @ [i]"
    "i \<in> set (train_examples s)" "i \<notin> set (known_examples s)" by auto
  from round_queried [OF step(2)] i(1) have q: "queried_indices (log s1) = queried_indices (log s) @ [i]"
    by auto
  from round_frame [OF step(2)] have f: "train_examples s1 = train_examples s"
    "test_examples s1 = test_examples s" "eval_examples s1 = eval_examples s" by simp_all
  from round_rounds [OF step(2)] have r: "rounds s1 = Suc (rounds s)" .
  from step(3) obtain queried where IH: "train_examples s2 = train_examples s1"
    "test_examples s2 = test_examples s1" "eval_examples s2 = eval_examples s1"
    "known_examples s2 = known_examples s1 @ queried"
    "distinct (known_examples s1) \<longrightarrow> distinct (known_examples s2)"
    "set queried \<subseteq> set (train_examples s1)"
    "rounds s2 = rounds s1 + length queried \<or> out \<noteq> None \<and> rounds s2 = Suc (rounds s1 + length queried)"
    "queried_indices (log s2) = queried_indices (log s1) @ queried
       \<or> out \<noteq> None \<and> (\<exists>j. queried_indices (log s2) = queried_indices (log s1) @ queried @ [j])"
    by blast
  have k: "known_examples s2 = known_examples s @ (i # queried)" using IH(4) i(1) by simp
  have d: "distinct (known_examples s) \<longrightarrow> distinct (known_examples s2)"
    using IH(5) i by simp
  have sub: "set (i # queried) \<subseteq> set (train_examples s)" using IH(6) i(2) f by simp
  have rd: "rounds s2 = rounds s + length (i # queried)
      \<or> out \<noteq> None \<and> rounds s2 = Suc (rounds s + length (i # queried))"
    using IH(7) r by auto
  have qi: "queried_indices (log s2) = queried_indices (log s) @ (i # queried)
      \<or> out \<noteq> None \<and> (\<exists>j. queried_indices (log s2) = queried_indices (log s) @ (i # queried) @ [j])"
    using IH(8) q by auto
  have fr: "train_examples s2 = train_examples s" "test_examples s2 = test_examples s"
    "eval_examples s2 = eval_examples s" using IH(1-3) f by simp_all
  show ?case
  proof (intro conjI exI [of _ "i # queried"])
    show "train_examples s2 = train_examples s" by (rule fr(1))
    show "test_examples s2 = test_examples s" by (rule fr(2))
    show "eval_examples s2 = eval_examples s" by (rule fr(3))
    show "known_examples s2 = known_examples s @ i # queried" by (rule k)
    show "distinct (known_examples s) \<longrightarrow> distinct (known_examples s2)" by (rule d)
    show "set (i # queried) \<subseteq> set (train_examples s)" by (rule sub)
    show "rounds s2 = rounds s + length (i # queried)
      \<or> out \<noteq> None \<and> rounds s2 = Suc (rounds s + length (i # queried))" by (rule rd)
    show "queried_indices (log s2) = queried_indices (log s) @ (i # queried)
      \<or> out \<noteq> None \<and> (\<exists>j. queried_indices (log s2) = queried_indices (log s) @ (i # queried) @ [j])"
      by (rule qi)
  qed
qed

lemma caipi_known:
  fixes c :: "('w, 'x, 'e, 'p, 'r) collaborators"
  assumes run: "caipi c fp train known test eval_ex max_iters st ei w = (s', out)"
  shows "train_examples s' = train \<and> test_examples s' = test \<and> eval_examples s' = eval_ex
       \<and> (\<exists>queried. known_examples s' = known @ queried
             \<and> (distinct known \<longrightarrow> distinct (known_examples s'))
             \<and> set queried \<subseteq> set train
             \<and> (rounds s' = length queried \<or> out \<noteq> None \<and> rounds s' = Suc (length queried))
             \<and> (queried_indices (log s') = queried
                  \<or> out \<noteq> None \<and> (\<exists>i. queried_indices (log s') = queried @ [i])))"
  using run
proof (cases rule: caipi_cases)
  case (init_failed w1 l)
  then show ?thesis by (auto simp: rounds_def init_state_def)
next
  case (looped w1 test_rows X_rows y_rows)
  define s0 :: "('w, 'x, 'e, 'p, 'r) state" where "s0 = (init_state w train known test eval_ex)
                \<lparr>world := w1, log := [SelectModel X_rows y_rows, Fit X_rows y_rows]\<rparr>"
  have s: "rounds s0 = 0" "train_examples s0 = train" "known_examples s0 = known"
    "test_examples s0 = test" "eval_examples s0 = eval_ex" "queried_indices (log s0) = []"
    by (simp_all add: s0_def rounds_def init_state_def)
  from looped(4) have loop: "caipi_loop c fp st ei (set test_rows) [0..<nat max_iters] s0 = (s', out)"
    by (simp add: s0_def)
  from caipi_loop_known [OF loop] s show ?thesis by simp
qed

text \<open>
  Claim C3. From a duplicate-free \<^verbatim>\<open>known_examples\<close> inside
  \<^verbatim>\<open>train_examples\<close>, a run only ever appends: the final list is the initial one
  followed by the queried indices, has no duplicates and stays inside
  \<^verbatim>\<open>train_examples\<close>. Every round that completes appends exactly one index, so a
  run that returns has grown the list by the number of its rounds; a round that raises
  has appended one index or none.
\<close>

theorem caipi_known_grows_by_one:
  fixes c :: "('w, 'x, 'e, 'p, 'r) collaborators"
  assumes "distinct known" and "set known \<subseteq> set train"
    and run: "caipi c fp train known test eval_ex max_iters st ei w = (s', out)"
  shows "\<exists>queried. known_examples s' = known @ queried
           \<and> distinct (known_examples s')
           \<and> set (known_examples s') \<subseteq> set train
           \<and> length queried \<le> rounds s' \<and> rounds s' \<le> Suc (length queried)
           \<and> (out = None \<longrightarrow> length (known_examples s') = length known + rounds s')"
proof -
  from caipi_known [OF run] obtain queried where q: "known_examples s' = known @ queried"
    "distinct known \<longrightarrow> distinct (known_examples s')" "set queried \<subseteq> set train"
    "rounds s' = length queried \<or> out \<noteq> None \<and> rounds s' = Suc (length queried)"
    by blast
  from q(1,3) assms(2) have "set (known_examples s') \<subseteq> set train" by simp
  moreover from q(1,4) have "out = None \<longrightarrow> length (known_examples s') = length known + rounds s'"
    by auto
  moreover from q(4) have "length queried \<le> rounds s' \<and> rounds s' \<le> Suc (length queried)" by auto
  ultimately show ?thesis using q(1,2) assms(1) by blast
qed

theorem caipi_known_grows_by_one_witness:
  "rounds (fst (caipi demo True [0, 1, 2] [0] [3] [3] 5 (- 1) 2 0)) = 2
   \<and> known_examples (fst (caipi demo True [0, 1, 2] [0] [3] [3] 5 (- 1) 2 0)) = [0, 1, 2]
   \<and> distinct (known_examples (fst (caipi demo True [0, 1, 2] [0] [3] [3] 5 (- 1) 2 0)))"
proof -
  let ?r = "caipi demo True [0, 1, 2] [0] [3] [3] 5 (- 1) 2 0"
  have d: "distinct [0::int]" and sub: "set [0::int] \<subseteq> set [0, 1, 2]" by simp_all
  have run: "?r = (fst ?r, snd ?r)" by simp
  have out: "snd ?r = None" and known: "known_examples (fst ?r) = [0, 1, 2]"
    by (simp_all add: run_simps)
  from caipi_known_grows_by_one [OF d sub run] out known show ?thesis by auto
qed

text \<open>
  Claim C10. \<^verbatim>\<open>caipi\<close> appends to the caller's \<^verbatim>\<open>known_examples\<close> itself (the
  model's state holds the caller's four lists; no copy is made): at the end the list is
  the initial list followed by the indices a label was queried for, in the order of the
  queries (when the run raised, the last query may be missing: the index is appended
  after \<^verbatim>\<open>query_label\<close> returns). The other three lists are as they were.
\<close>

theorem caipi_appends_to_callers_list:
  fixes c :: "('w, 'x, 'e, 'p, 'r) collaborators"
  assumes run: "caipi c fp train known test eval_ex max_iters st ei w = (s', out)"
  shows "train_examples s' = train \<and> test_examples s' = test \<and> eval_examples s' = eval_ex
       \<and> (\<exists>queried. known_examples s' = known @ queried
             \<and> (out = None \<longrightarrow> queried = queried_indices (log s'))
             \<and> (queried = queried_indices (log s') \<or> queried = butlast (queried_indices (log s'))))"
proof -
  from caipi_known [OF run] obtain queried where fr: "train_examples s' = train"
    "test_examples s' = test" "eval_examples s' = eval_ex"
    and k: "known_examples s' = known @ queried"
    and q: "queried_indices (log s') = queried
              \<or> out \<noteq> None \<and> (\<exists>i. queried_indices (log s') = queried @ [i])"
    by blast
  from q have "out = None \<longrightarrow> queried = queried_indices (log s')" by auto
  moreover from q have "queried = queried_indices (log s') \<or> queried = butlast (queried_indices (log s'))"
    by auto
  ultimately show ?thesis using fr k by blast
qed

theorem caipi_appends_to_callers_list_witness:
  "known_examples (fst (caipi demo True [0, 1, 2] [0] [3] [3] 5 0 2 0)) = [0, 1, 2]
   \<and> train_examples (fst (caipi demo True [0, 1, 2] [0] [3] [3] 5 0 2 0)) = [0, 1, 2]
   \<and> test_examples (fst (caipi demo True [0, 1, 2] [0] [3] [3] 5 0 2 0)) = [3]"
proof -
  let ?r = "caipi demo True [0, 1, 2] [0] [3] [3] 5 0 2 0"
  have run: "?r = (fst ?r, snd ?r)" by simp
  have out: "snd ?r = None" and q: "queried_indices (log (fst ?r)) = [1, 2]"
    by (simp_all add: run_simps)
  from caipi_appends_to_callers_list [OF run] out q show ?thesis by auto
qed

subsection \<open>The selected query\<close>

text \<open>
  Claim C5. Right after the selection the code asserts that the selected index is in
  \<^verbatim>\<open>train_examples\<close> and not in \<^verbatim>\<open>known_examples\<close>. When it is not, the round
  ends there with \<^verbatim>\<open>AssertionError\<close>: the state is the one before the round but
  for the world and the one call of \<^verbatim>\<open>select_query\<close>, so nothing was predicted,
  labelled, appended, fitted or evaluated. When it is, the round goes on to the
  prediction, and a round that completes has queried the label of \<open>i\<close>, appended
  \<open>i\<close>, fitted and evaluated.
\<close>

theorem caipi_round_assertion:
  assumes sel: "select_query c ((set (train_examples s) - set (known_examples s)) \<inter> explainable c)
                  (world s) = (Inr i, w)"
    and run: "caipi_round c fp st ei Xtt t s = (s', out)"
  shows "(\<not> (i \<in> set (train_examples s) \<and> i \<notin> set (known_examples s)) \<longrightarrow>
            out = Some AssertionError
            \<and> s' = s\<lparr>world := w, log := log s @
                 [SelectQuery ((set (train_examples s) - set (known_examples s)) \<inter> explainable c)]\<rparr>)
       \<and> (i \<in> set (train_examples s) \<and> i \<notin> set (known_examples s) \<longrightarrow>
            (\<forall>x. prob_X c i = Some x \<longrightarrow>
               take 2 (new_events s s') =
                 [SelectQuery ((set (train_examples s) - set (known_examples s)) \<inter> explainable c),
                  Predict x])
            \<and> (out = None \<longrightarrow>
                 known_examples s' = known_examples s @ [i]
                 \<and> QueryLabel i \<in> set (new_events s s')
                 \<and> (\<exists>X y. Fit X y \<in> set (new_events s s'))
                 \<and> (\<exists>eval_ex. Eval (known_examples s @ [i]) (test_examples s) eval_ex (Round t)
                        \<in> set (new_events s s'))))"
  using assms
  by (auto simp: caipi_round_def stmt_defs Let_def np_index_def new_events_def split: round_splits)

theorem caipi_round_assertion_witness:
  "snd (caipi_round stubborn True (- 1) 2 {30} 0 (init_state 0 [0, 1, 2] [0, 1] [3] [3]))
     = Some AssertionError
   \<and> known_examples (fst (caipi_round stubborn True (- 1) 2 {30} 0
        (init_state 0 [0, 1, 2] [0, 1] [3] [3]))) = [0, 1]
   \<and> known_examples (fst (caipi_round demo True (- 1) 2 {30} 0
        (init_state 0 [0, 1, 2] [0, 1] [3] [3]))) = [0, 1, 2]"
proof -
  let ?s = "init_state 0 [0, 1, 2] [0, 1] [3] [3] :: (nat, int, int, nat, nat) state"
  let ?bad = "caipi_round stubborn True (- 1) 2 {30} 0 ?s"
  let ?good = "caipi_round demo True (- 1) 2 {30} 0 ?s"
  have sel_bad: "select_query stubborn
      ((set (train_examples ?s) - set (known_examples ?s)) \<inter> explainable stubborn) (world ?s) = (Inr 0, 0)"
    by (simp add: stubborn_def demo_def init_state_def)
  have sel_good: "select_query demo
      ((set (train_examples ?s) - set (known_examples ?s)) \<inter> explainable demo) (world ?s) = (Inr 2, 0)"
    by (simp add: demo_def init_state_def)
  have bad: "?bad = (fst ?bad, snd ?bad)" and good: "?good = (fst ?good, snd ?good)" by simp_all
  have out: "snd ?good = None" by (simp add: run_simps)
  from caipi_round_assertion [OF sel_bad bad]
  have "snd ?bad = Some AssertionError \<and> known_examples (fst ?bad) = [0, 1]"
    by (simp add: init_state_def)
  moreover from caipi_round_assertion [OF sel_good good] out
  have "known_examples (fst ?good) = [0, 1, 2]"
    by (simp add: init_state_def)
  ultimately show ?thesis by simp
qed

subsection \<open>An empty pool of explainable candidates\<close>

text \<open>
  Claim C2, as the code has it. When no unknown example is explainable,
  \<^verbatim>\<open>select_query\<close> is called with the empty set: \<^verbatim>\<open>caipi\<close> has no fallback to
  the unknown examples. What the round does is then up to what the learner makes of an
  empty pool: an exception of the learner ends the run, an index that is not an unknown
  example ends it with \<^verbatim>\<open>AssertionError\<close>, and the round completes only if the learner
  returns an unknown example all the same.
\<close>

theorem caipi_round_empty_pool:
  assumes pool: "(set (train_examples s) - set (known_examples s)) \<inter> explainable c = {}"
    and run: "caipi_round c fp st ei Xtt t s = (s', out)"
  shows "take 1 (new_events s s') = [SelectQuery {}]
       \<and> (\<forall>e w. select_query c {} (world s) = (Inl e, w) \<longrightarrow>
             out = Some e \<and> s' = s\<lparr>world := w, log := log s @ [SelectQuery {}]\<rparr>)
       \<and> (\<forall>i w. select_query c {} (world s) = (Inr i, w)
                \<and> \<not> (i \<in> set (train_examples s) \<and> i \<notin> set (known_examples s)) \<longrightarrow>
             out = Some AssertionError \<and> s' = s\<lparr>world := w, log := log s @ [SelectQuery {}]\<rparr>)
       \<and> (out = None \<longrightarrow>
             (\<exists>i w. select_query c {} (world s) = (Inr i, w)
                \<and> i \<in> set (train_examples s) - set (known_examples s)
                \<and> known_examples s' = known_examples s @ [i]))"
  using assms
  by (auto simp: caipi_round_def stmt_defs Let_def new_events_def split: round_splits)

theorem caipi_round_empty_pool_witness:
  "snd (caipi_round demo True (- 1) 2 {10} 0 (init_state 0 [0, 3] [0] [1] [1]))
     = Some (Raised ''ValueError'')
   \<and> known_examples (fst (caipi_round demo True (- 1) 2 {10} 0 (init_state 0 [0, 3] [0] [1] [1])))
     = [0]"
proof -
  let ?s = "init_state 0 [0, 3] [0] [1] [1] :: (nat, int, int, nat, nat) state"
  let ?r = "caipi_round demo True (- 1) 2 {10} 0 ?s"
  have pool: "(set (train_examples ?s) - set (known_examples ?s)) \<inter> explainable demo = {}"
    by (simp add: demo_def init_state_def)
  have sel: "select_query demo {} (world ?s) = (Inl (Raised ''ValueError''), 0)"
    by (simp add: demo_def init_state_def)
  have r: "?r = (fst ?r, snd ?r)" by simp
  from caipi_round_empty_pool [OF pool r] sel show ?thesis
    by (simp add: init_state_def)
qed

text \<open>
  Claim C2 as stated fails: with training examples 0 and 3, example 0 known and example
  3 not explainable, the unknown examples are \<open>{3}\<close> and the pool handed to the
  learner is empty; the learner raises on it, and the run ends with that exception
  before any label is queried.
\<close>

theorem caipi_empty_pool_counterexample:
  "set [0, 3] - set [0] = {3::int}
   \<and> (set [0, 3] - set [0]) \<inter> explainable demo = {}
   \<and> caipi demo True [0, 3] [0] [1] [1] 5 (- 1) 2 0 =
       (\<lparr>world = 1, log = [SelectModel [0] [0], Fit [0] [0], SelectQuery {}],
         train_examples = [0, 3], known_examples = [0], test_examples = [1],
         eval_examples = [1], X_corr = None, y_corr = None, perfs = [], params = []\<rparr>,
        Some (Raised ''ValueError''))"
  by (simp add: run_simps)

end
